theory Spec2Isabelle
  imports Complex_Main
begin

section \<open>The climate adapter of Homematic(IP) Local\<close>

text \<open>
  A shallow embedding of \<^verbatim>\<open>custom_components/homematicip_local/climate.py\<close>: the
  class \<^verbatim>\<open>HaHomematicClimate\<close>, its lookup tables, its property getters and its
  command methods. The device handle (\<^verbatim>\<open>BaseClimateEntity\<close> of the device library) and
  the host platform (\<^verbatim>\<open>ClimateEntity\<close>, \<^verbatim>\<open>State\<close>) are outside the repository;
  they appear here as the data the adapter reads and as the calls it makes.
\<close>

subsection \<open>Python values\<close>

text \<open>
  A dynamically typed value as the adapter hands it on: \<^verbatim>\<open>None\<close>, a float, an int or a
  string. Floats are only passed through, never computed with, so a real number stands for
  one.
\<close>

datatype pyval = PNone | PFloat real | PInt int | PStr string

type_synonym pydict = "string \<rightharpoonup> pyval"

text \<open>\<^verbatim>\<open>d.get(k)\<close>: the value stored under \<open>k\<close>, \<^verbatim>\<open>None\<close> without one.\<close>

definition dict_get :: "pydict \<Rightarrow> string \<Rightarrow> pyval" where
  "dict_get d k = (case d k of None \<Rightarrow> PNone | Some v \<Rightarrow> v)"

text \<open>A value typed \<^verbatim>\<open>float | None\<close> or \<^verbatim>\<open>int | None\<close>, as a Python value.\<close>

definition float_or_none :: "real option \<Rightarrow> pyval" where
  "float_or_none x = (case x of None \<Rightarrow> PNone | Some v \<Rightarrow> PFloat v)"

definition int_or_none :: "int option \<Rightarrow> pyval" where
  "int_or_none x = (case x of None \<Rightarrow> PNone | Some v \<Rightarrow> PInt v)"

text \<open>\<^verbatim>\<open>s.startswith(p)\<close>.\<close>

fun startswith :: "string \<Rightarrow> string \<Rightarrow> bool" where
  "startswith s [] = True"
| "startswith [] (p # ps) = False"
| "startswith (c # cs) (p # ps) = (c = p \<and> startswith cs ps)"

text \<open>
  A dict literal or comprehension: the items are inserted from left to right, a later
  item replacing an earlier one with the same key.
\<close>

definition dict_of :: "('k \<times> 'v) list \<Rightarrow> ('k \<rightharpoonup> 'v)" where
  "dict_of kvs = foldl (\<lambda>m (k, v). m(k \<mapsto> v)) Map.empty kvs"

datatype error = ValueError

subsection \<open>Enumerations\<close>

text \<open>
  The device library's \<^verbatim>\<open>HvacMode\<close> and \<^verbatim>\<open>HvacAction\<close> are declared outside the
  repository. The source names four members of each and guards every table lookup with a
  membership test, so each type keeps one more constructor for any member the source does
  not name (numbered, to tell them apart).
\<close>

datatype HmHvacMode =
  HmHvacMode_AUTO | HmHvacMode_COOL | HmHvacMode_HEAT | HmHvacMode_OFF
| HmHvacMode_OTHER nat

datatype HmHvacAction =
  HmHvacAction_COOL | HmHvacAction_HEAT | HmHvacAction_IDLE | HmHvacAction_OFF
| HmHvacAction_OTHER nat

text \<open>
  The platform's \<^verbatim>\<open>HVACMode\<close> (a string enum) with the values of its members, and the
  members of \<^verbatim>\<open>HVACAction\<close> the adapter produces.
\<close>

datatype HVACMode =
  HVACMode_OFF | HVACMode_HEAT | HVACMode_COOL | HVACMode_HEAT_COOL
| HVACMode_AUTO | HVACMode_DRY | HVACMode_FAN_ONLY

datatype HVACAction =
  HVACAction_COOLING | HVACAction_HEATING | HVACAction_IDLE | HVACAction_OFF

text \<open>\<^verbatim>\<open>HVACMode(value=s)\<close>: the member with that value; \<^verbatim>\<open>ValueError\<close> without one.\<close>

definition HVACMode_of_value :: "string \<Rightarrow> error + HVACMode" where
  "HVACMode_of_value s =
     (if s = ''off'' then Inr HVACMode_OFF
      else if s = ''heat'' then Inr HVACMode_HEAT
      else if s = ''cool'' then Inr HVACMode_COOL
      else if s = ''heat_cool'' then Inr HVACMode_HEAT_COOL
      else if s = ''auto'' then Inr HVACMode_AUTO
      else if s = ''dry'' then Inr HVACMode_DRY
      else if s = ''fan_only'' then Inr HVACMode_FAN_ONLY
      else Inl ValueError)"

datatype ClimateEntityFeature =
  TARGET_TEMPERATURE | PRESET_MODE | TURN_OFF | TURN_ON

datatype UnitOfTemperature = CELSIUS

subsection \<open>Constants and lookup tables\<close>

definition PRESET_AWAY :: string where "PRESET_AWAY = ''away''"
definition PRESET_BOOST :: string where "PRESET_BOOST = ''boost''"
definition PRESET_COMFORT :: string where "PRESET_COMFORT = ''comfort''"
definition PRESET_ECO :: string where "PRESET_ECO = ''eco''"
definition PRESET_NONE :: string where "PRESET_NONE = ''none''"

definition STATE_UNKNOWN :: string where "STATE_UNKNOWN = ''unknown''"
definition STATE_UNAVAILABLE :: string where "STATE_UNAVAILABLE = ''unavailable''"

definition ATTR_TEMPERATURE :: string where
  "ATTR_TEMPERATURE = ''temperature''"
definition ATTR_CURRENT_TEMPERATURE :: string where
  "ATTR_CURRENT_TEMPERATURE = ''current_temperature''"
definition ATTR_CURRENT_HUMIDITY :: string where
  "ATTR_CURRENT_HUMIDITY = ''current_humidity''"
definition ATTR_PRESET_MODE :: string where
  "ATTR_PRESET_MODE = ''preset_mode''"

definition SUPPORTED_HA_PRESET_MODES :: "string list" where
  "SUPPORTED_HA_PRESET_MODES =
     [PRESET_AWAY, PRESET_BOOST, PRESET_COMFORT, PRESET_ECO, PRESET_NONE]"

definition HM_TO_HA_HVAC_MODE_items :: "(HmHvacMode \<times> HVACMode) list" where
  "HM_TO_HA_HVAC_MODE_items =
     [(HmHvacMode_AUTO, HVACMode_AUTO),
      (HmHvacMode_COOL, HVACMode_COOL),
      (HmHvacMode_HEAT, HVACMode_HEAT),
      (HmHvacMode_OFF, HVACMode_OFF)]"

definition HM_TO_HA_HVAC_MODE :: "HmHvacMode \<rightharpoonup> HVACMode" where
  "HM_TO_HA_HVAC_MODE = dict_of HM_TO_HA_HVAC_MODE_items"

text \<open>\<^verbatim>\<open>{v: k for k, v in HM_TO_HA_HVAC_MODE.items()}\<close>\<close>

definition HA_TO_HM_HVAC_MODE :: "HVACMode \<rightharpoonup> HmHvacMode" where
  "HA_TO_HM_HVAC_MODE = dict_of (map (\<lambda>(k, v). (v, k)) HM_TO_HA_HVAC_MODE_items)"

definition HM_TO_HA_ACTION :: "HmHvacAction \<rightharpoonup> HVACAction" where
  "HM_TO_HA_ACTION = dict_of
     [(HmHvacAction_COOL, HVACAction_COOLING),
      (HmHvacAction_HEAT, HVACAction_HEATING),
      (HmHvacAction_IDLE, HVACAction_IDLE),
      (HmHvacAction_OFF, HVACAction_OFF)]"

subsection \<open>The device handle and the restored snapshot\<close>

text \<open>
  What the adapter reads from the device handle, one field per property it consumes. A
  preset is the value of a member of the library's \<^verbatim>\<open>PresetMode\<close> string enum: the
  source compares it with strings, takes \<^verbatim>\<open>str()\<close> of it and reads its
  \<^verbatim>\<open>.value\<close>, all of which give that string.
\<close>

record BaseClimateEntity =
  hm_is_valid :: bool
  hm_target_temperature :: "real option"
  hm_current_temperature :: "real option"
  hm_current_humidity :: "int option"
  hm_hvac_action :: "HmHvacAction option"
  hm_hvac_mode :: HmHvacMode
  hm_hvac_modes :: "HmHvacMode list"
  hm_min_temp :: real
  hm_max_temp :: real
  hm_preset_mode :: string
  hm_preset_modes :: "string list"
  hm_supports_preset :: bool
  hm_target_temperature_step :: real

text \<open>The platform's \<^verbatim>\<open>State\<close>: the state string and the attribute dict.\<close>

record State =
  state :: string
  attributes :: pydict

type_synonym ControlUnit = nat

text \<open>
  The adapter object: its reference to the handle (the field holds what the handle
  reports at the moment), the restored snapshot, and the two attributes
  \<^verbatim>\<open>__init__\<close> assigns.
\<close>

record HaHomematicClimate =
  cu :: ControlUnit
  hm_entity :: BaseClimateEntity
  restored_state :: "State option"
  attr_temperature_unit :: UnitOfTemperature
  attr_target_temperature_step :: real

text \<open>
  \<^verbatim>\<open>__init__\<close>. The base class's initialiser is in \<^verbatim>\<open>generic_entity.py\<close>, which is
  not among the sources: it keeps the control unit and the handle, and no snapshot is
  restored yet.
\<close>

definition init :: "ControlUnit \<Rightarrow> BaseClimateEntity \<Rightarrow> HaHomematicClimate" where
  "init control_unit hm =
     \<lparr>cu = control_unit, hm_entity = hm, restored_state = None,
      attr_temperature_unit = CELSIUS,
      attr_target_temperature_step = hm_target_temperature_step hm\<rparr>"

text \<open>
  Modelled from the spec: the property \<^verbatim>\<open>is_restored\<close> of the base class
  \<^verbatim>\<open>HaHomematicGenericRestoreEntity\<close> (\<^verbatim>\<open>generic_entity.py\<close>, not among the sources).
  The spec: the fallback applies "if the adapter's restore state is populated and not in an
  unknown/unavailable state".
\<close>

definition is_restored :: "HaHomematicClimate \<Rightarrow> bool" where
  "is_restored self =
     (case restored_state self of
        None \<Rightarrow> False
      | Some rs \<Rightarrow> state rs \<notin> set [STATE_UNKNOWN, STATE_UNAVAILABLE])"

subsection \<open>The property getters\<close>

definition target_temperature :: "HaHomematicClimate \<Rightarrow> pyval" where
  "target_temperature self =
     (if hm_is_valid (hm_entity self)
      then float_or_none (hm_target_temperature (hm_entity self))
      else if is_restored self then
        (case restored_state self of
           Some rs \<Rightarrow> dict_get (attributes rs) ATTR_TEMPERATURE
         | None \<Rightarrow> PNone)
      else PNone)"

definition current_temperature :: "HaHomematicClimate \<Rightarrow> pyval" where
  "current_temperature self =
     (if hm_is_valid (hm_entity self)
      then float_or_none (hm_current_temperature (hm_entity self))
      else if is_restored self then
        (case restored_state self of
           Some rs \<Rightarrow> dict_get (attributes rs) ATTR_CURRENT_TEMPERATURE
         | None \<Rightarrow> PNone)
      else PNone)"

definition current_humidity :: "HaHomematicClimate \<Rightarrow> pyval" where
  "current_humidity self =
     (if hm_is_valid (hm_entity self)
      then int_or_none (hm_current_humidity (hm_entity self))
      else if is_restored self then
        (case restored_state self of
           Some rs \<Rightarrow> dict_get (attributes rs) ATTR_CURRENT_HUMIDITY
         | None \<Rightarrow> PNone)
      else PNone)"

text \<open>
  \<^verbatim>\<open>hvac_action\<close>. A member of the library's enum is truthy (its value is a non-empty
  string), so the first test of the source fails on \<^verbatim>\<open>None\<close> only.
\<close>

definition hvac_action :: "HaHomematicClimate \<Rightarrow> HVACAction option" where
  "hvac_action self =
     (case hm_hvac_action (hm_entity self) of
        None \<Rightarrow> None
      | Some a \<Rightarrow>
          (case HM_TO_HA_ACTION a of
             Some ha \<Rightarrow> Some ha
           | None \<Rightarrow> None))"

text \<open>
  \<^verbatim>\<open>hvac_mode\<close>. The last branch builds the platform mode from the snapshot's state
  string, which raises \<^verbatim>\<open>ValueError\<close> when the string is no value of the enum.
\<close>

definition hvac_mode :: "HaHomematicClimate \<Rightarrow> error + HVACMode option" where
  "hvac_mode self =
     (if hm_is_valid (hm_entity self) then
        (case HM_TO_HA_HVAC_MODE (hm_hvac_mode (hm_entity self)) of
           Some m \<Rightarrow> Inr (Some m)
         | None \<Rightarrow> Inr (Some HVACMode_OFF))
      else if is_restored self then
        (case restored_state self of
           Some rs \<Rightarrow>
             (if state rs \<notin> set [STATE_UNKNOWN, STATE_UNAVAILABLE] then
                (case HVACMode_of_value (state rs) of
                   Inr m \<Rightarrow> Inr (Some m)
                 | Inl e \<Rightarrow> Inl e)
              else Inr None)
         | None \<Rightarrow> Inr None)
      else Inr None)"

definition hvac_modes :: "HaHomematicClimate \<Rightarrow> HVACMode list" where
  "hvac_modes self =
     concat (map (\<lambda>hm.
                    case HM_TO_HA_HVAC_MODE hm of
                      Some m \<Rightarrow> [m]
                    | None \<Rightarrow> [])
                 (hm_hvac_modes (hm_entity self)))"

definition min_temp :: "HaHomematicClimate \<Rightarrow> real" where
  "min_temp self = hm_min_temp (hm_entity self)"

definition max_temp :: "HaHomematicClimate \<Rightarrow> real" where
  "max_temp self = hm_max_temp (hm_entity self)"

text \<open>
  The class defines no \<^verbatim>\<open>target_temperature_step\<close> of its own: the platform's
  inherited property returns the attribute \<^verbatim>\<open>_attr_target_temperature_step\<close>, which
  \<^verbatim>\<open>__init__\<close> assigned.
\<close>

definition target_temperature_step :: "HaHomematicClimate \<Rightarrow> real" where
  "target_temperature_step self = attr_target_temperature_step self"

text \<open>
  \<^verbatim>\<open>preset_mode\<close>. The device library's constant \<^verbatim>\<open>PRESET_MODE_PREFIX\<close> is not among
  the sources; it is a parameter here and of every function that reads it. Python's
  \<^verbatim>\<open>and\<close> binds tighter than \<^verbatim>\<open>or\<close>: the condition is
  \<^verbatim>\<open>(is_valid and preset in SUPPORTED_HA_PRESET_MODES) or str(preset).startswith(prefix)\<close>.
\<close>

definition preset_mode :: "string \<Rightarrow> HaHomematicClimate \<Rightarrow> pyval" where
  "preset_mode PRESET_MODE_PREFIX self =
     (if (hm_is_valid (hm_entity self)
            \<and> hm_preset_mode (hm_entity self) \<in> set SUPPORTED_HA_PRESET_MODES)
          \<or> startswith (hm_preset_mode (hm_entity self)) PRESET_MODE_PREFIX
      then PStr (hm_preset_mode (hm_entity self))
      else if is_restored self then
        (case restored_state self of
           Some rs \<Rightarrow> dict_get (attributes rs) ATTR_PRESET_MODE
         | None \<Rightarrow> PNone)
      else PNone)"

text \<open>
  \<^verbatim>\<open>preset_modes\<close>: the loop over the handle's presets, with the list built so far.
  The two tests are two \<^verbatim>\<open>if\<close> statements, not an \<^verbatim>\<open>if\<close>/\<^verbatim>\<open>elif\<close>.
\<close>

fun preset_modes_loop :: "string \<Rightarrow> string list \<Rightarrow> string list \<Rightarrow> string list" where
  "preset_modes_loop PRESET_MODE_PREFIX [] out = out"
| "preset_modes_loop PRESET_MODE_PREFIX (pm # rest) out =
     (let out1 = (if pm \<in> set SUPPORTED_HA_PRESET_MODES then out @ [pm] else out);
          out2 = (if startswith pm PRESET_MODE_PREFIX then out1 @ [pm] else out1)
      in preset_modes_loop PRESET_MODE_PREFIX rest out2)"

definition preset_modes :: "string \<Rightarrow> HaHomematicClimate \<Rightarrow> string list" where
  "preset_modes PRESET_MODE_PREFIX self =
     preset_modes_loop PRESET_MODE_PREFIX (hm_preset_modes (hm_entity self)) []"

text \<open>
  \<^verbatim>\<open>supported_features\<close>. The platform's flag value is a set of flags, \<^verbatim>\<open>|\<close> their
  union.
\<close>

definition supported_features :: "HaHomematicClimate \<Rightarrow> ClimateEntityFeature set" where
  "supported_features self =
     (let supported_features = {TARGET_TEMPERATURE} \<union> {TURN_OFF} \<union> {TURN_ON}
      in if hm_supports_preset (hm_entity self)
         then supported_features \<union> {PRESET_MODE}
         else supported_features)"

subsection \<open>The command methods\<close>

text \<open>
  What a command method does is a sequence of events: the calls it makes on the device
  handle and the warnings it logs. A method takes the events so far and returns them with
  its own appended. What the handle does with a call is the device library's business;
  an exception of the handle would pass through the method unchanged and is not modelled.
  A point in time is a number of microseconds, the resolution of \<^verbatim>\<open>datetime\<close>.
\<close>

type_synonym datetime = int

datatype hm_call =
  set_temperature pyval
| set_hvac_mode HmHvacMode
| set_preset_mode string
| enable_away_mode_by_calendar datetime datetime real
| enable_away_mode_by_duration int real
| disable_away_mode

datatype log_arg = Arg_str string | Arg_mode "HVACMode option"

datatype event = HmCall hm_call | Warning string "log_arg list"

fun hm_calls :: "event list \<Rightarrow> hm_call list" where
  "hm_calls [] = []"
| "hm_calls (HmCall c # es) = c # hm_calls es"
| "hm_calls (Warning msg args # es) = hm_calls es"

fun warnings :: "event list \<Rightarrow> (string \<times> log_arg list) list" where
  "warnings [] = []"
| "warnings (HmCall c # es) = warnings es"
| "warnings (Warning msg args # es) = (msg, args) # warnings es"

definition timedelta_minutes :: "int \<Rightarrow> int" where
  "timedelta_minutes m = m * 60 * 1000000"

definition async_set_temperature ::
    "HaHomematicClimate \<Rightarrow> pydict \<Rightarrow> event list \<Rightarrow> event list" where
  "async_set_temperature self kwargs tr =
     (let temperature = dict_get kwargs ATTR_TEMPERATURE
      in if temperature = PNone then tr
         else tr @ [HmCall (set_temperature temperature)])"

definition async_set_hvac_mode ::
    "HaHomematicClimate \<Rightarrow> HVACMode \<Rightarrow> event list \<Rightarrow> event list" where
  "async_set_hvac_mode self hvac_mode_arg tr =
     (case HA_TO_HM_HVAC_MODE hvac_mode_arg of
        None \<Rightarrow>
          tr @ [Warning ''Hvac mode %s is not supported by integration''
                  [Arg_mode (Some hvac_mode_arg)]]
      | Some hm \<Rightarrow> tr @ [HmCall (set_hvac_mode hm)])"

text \<open>
  \<^verbatim>\<open>PresetMode(value)\<close>: the member of the device library's enum with that value;
  \<^verbatim>\<open>ValueError\<close> without one. The enum is not among the sources: the values of its
  members are a parameter. A member is modelled by its value, as in the handle's fields.
\<close>

definition PresetMode_of_value :: "string list \<Rightarrow> string \<Rightarrow> error + string" where
  "PresetMode_of_value PresetMode_values s =
     (if s \<in> set PresetMode_values then Inr s else Inl ValueError)"

text \<open>
  \<^verbatim>\<open>async_set_preset_mode\<close>. The arguments of the warning are evaluated before it is
  logged, \<^verbatim>\<open>self.hvac_mode\<close> among them: when that getter raises, the exception leaves
  the method there. So does the exception of \<^verbatim>\<open>PresetMode(preset_mode)\<close>, which is
  evaluated before the handle is called. The result is the events, and the exception the
  method ends with, if any.
\<close>

definition async_set_preset_mode ::
    "string list \<Rightarrow> string \<Rightarrow> HaHomematicClimate \<Rightarrow> string \<Rightarrow> event list
      \<Rightarrow> event list \<times> error option" where
  "async_set_preset_mode PresetMode_values PRESET_MODE_PREFIX self preset_mode_arg tr =
     (if preset_mode_arg \<notin> set (preset_modes PRESET_MODE_PREFIX self) then
        (case hvac_mode self of
           Inl e \<Rightarrow> (tr, Some e)
         | Inr m \<Rightarrow>
             (tr @ [Warning ''Preset mode %s is not supported in hvac_mode %s''
                      [Arg_str preset_mode_arg, Arg_mode m]],
              None))
      else
        (case PresetMode_of_value PresetMode_values preset_mode_arg of
           Inl e \<Rightarrow> (tr, Some e)
         | Inr member \<Rightarrow> (tr @ [HmCall (set_preset_mode member)], None)))"

text \<open>
  \<^verbatim>\<open>async_enable_away_mode_by_calendar\<close>. \<open>now\<close> is what \<^verbatim>\<open>datetime.now()\<close> reads;
  a \<^verbatim>\<open>datetime\<close> is always truthy, so \<^verbatim>\<open>start or ...\<close> takes the default for
  \<^verbatim>\<open>None\<close> only.
\<close>

definition async_enable_away_mode_by_calendar ::
    "datetime \<Rightarrow> HaHomematicClimate \<Rightarrow> datetime \<Rightarrow> real \<Rightarrow> datetime option
      \<Rightarrow> event list \<Rightarrow> event list" where
  "async_enable_away_mode_by_calendar now self away_end away_temperature start tr =
     (let start1 = (case start of
                      Some s \<Rightarrow> s
                    | None \<Rightarrow> now - timedelta_minutes 10)
      in tr @ [HmCall (enable_away_mode_by_calendar start1 away_end away_temperature)])"

definition async_enable_away_mode_by_duration ::
    "HaHomematicClimate \<Rightarrow> int \<Rightarrow> real \<Rightarrow> event list \<Rightarrow> event list" where
  "async_enable_away_mode_by_duration self hours away_temperature tr =
     tr @ [HmCall (enable_away_mode_by_duration hours away_temperature)]"

definition async_disable_away_mode ::
    "HaHomematicClimate \<Rightarrow> event list \<Rightarrow> event list" where
  "async_disable_away_mode self tr = tr @ [HmCall disable_away_mode]"

subsection \<open>Changes of the device handle\<close>

text \<open>
  The handle is owned by the device library and changes under the adapter, which sees the
  change through its reference: a change of the handle is a change of the field
  \<open>hm_entity\<close>, and of nothing else of the adapter.
\<close>

definition handle_changed ::
    "(BaseClimateEntity \<Rightarrow> BaseClimateEntity) \<Rightarrow> HaHomematicClimate \<Rightarrow> HaHomematicClimate" where
  "handle_changed f self = self\<lparr>hm_entity := f (hm_entity self)\<rparr>"

fun handle_changes ::
    "(BaseClimateEntity \<Rightarrow> BaseClimateEntity) list \<Rightarrow> HaHomematicClimate \<Rightarrow> HaHomematicClimate" where
  "handle_changes [] self = self"
| "handle_changes (f # fs) self = handle_changes fs (handle_changed f self)"

definition change_min_temp :: "real \<Rightarrow> BaseClimateEntity \<Rightarrow> BaseClimateEntity" where
  "change_min_temp v hm = hm\<lparr>hm_min_temp := v\<rparr>"

definition change_max_temp :: "real \<Rightarrow> BaseClimateEntity \<Rightarrow> BaseClimateEntity" where
  "change_max_temp v hm = hm\<lparr>hm_max_temp := v\<rparr>"

definition change_target_temperature_step ::
    "real \<Rightarrow> BaseClimateEntity \<Rightarrow> BaseClimateEntity" where
  "change_target_temperature_step v hm = hm\<lparr>hm_target_temperature_step := v\<rparr>"

subsection \<open>A thermostat, for the examples\<close>

definition thermostat :: BaseClimateEntity where
  "thermostat =
     \<lparr>hm_is_valid = True,
      hm_target_temperature = Some 21,
      hm_current_temperature = Some 19,
      hm_current_humidity = Some 40,
      hm_hvac_action = Some HmHvacAction_HEAT,
      hm_hvac_mode = HmHvacMode_HEAT,
      hm_hvac_modes = [HmHvacMode_AUTO, HmHvacMode_HEAT, HmHvacMode_OFF],
      hm_min_temp = 5,
      hm_max_temp = 30,
      hm_preset_mode = ''none'',
      hm_preset_modes = [''none'', ''boost'', ''week_program_1'', ''party''],
      hm_supports_preset = True,
      hm_target_temperature_step = 1\<rparr>"

definition snapshot :: State where
  "snapshot =
     \<lparr>state = ''heat'',
      attributes =
        [''temperature'' \<mapsto> PFloat 20,
         ''current_temperature'' \<mapsto> PFloat 18,
         ''current_humidity'' \<mapsto> PInt 45,
         ''preset_mode'' \<mapsto> PStr ''boost'']\<rparr>"

text \<open>The same thermostat before it has reported valid data.\<close>

definition invalid_thermostat :: BaseClimateEntity where
  "invalid_thermostat = thermostat\<lparr>hm_is_valid := False\<rparr>"

definition restored_adapter :: HaHomematicClimate where
  "restored_adapter = (init 0 invalid_thermostat)\<lparr>restored_state := Some snapshot\<rparr>"

text \<open>
  An invalid handle that still reports a week profile as its preset, with the library's
  prefix \<^verbatim>\<open>week_program_\<close>.
\<close>

definition stale_profile_adapter :: HaHomematicClimate where
  "stale_profile_adapter =
     (init 0 (invalid_thermostat\<lparr>hm_preset_mode := ''week_program_1''\<rparr>))
       \<lparr>restored_state := Some snapshot\<rparr>"

text \<open>A snapshot whose state string is no value of the platform's mode enum.\<close>

definition odd_state_adapter :: HaHomematicClimate where
  "odd_state_adapter =
     (init 0 invalid_thermostat)\<lparr>restored_state := Some (snapshot\<lparr>state := ''foo''\<rparr>)\<rparr>"

definition unmapped_mode_adapter :: HaHomematicClimate where
  "unmapped_mode_adapter = init 0 (thermostat\<lparr>hm_hvac_mode := HmHvacMode_OTHER 0\<rparr>)"

definition unmapped_action_adapter :: HaHomematicClimate where
  "unmapped_action_adapter =
     init 0 (invalid_thermostat\<lparr>hm_hvac_action := Some (HmHvacAction_OTHER 0)\<rparr>)"

definition no_action_adapter :: HaHomematicClimate where
  "no_action_adapter = init 0 (invalid_thermostat\<lparr>hm_hvac_action := None\<rparr>)"

section \<open>Properties\<close>

subsection \<open>Auxiliary facts\<close>

lemmas const_defs =
  PRESET_AWAY_def PRESET_BOOST_def PRESET_COMFORT_def PRESET_ECO_def PRESET_NONE_def
  STATE_UNKNOWN_def STATE_UNAVAILABLE_def ATTR_TEMPERATURE_def ATTR_CURRENT_TEMPERATURE_def
  ATTR_CURRENT_HUMIDITY_def ATTR_PRESET_MODE_def SUPPORTED_HA_PRESET_MODES_def

lemmas example_defs =
  thermostat_def snapshot_def invalid_thermostat_def restored_adapter_def
  stale_profile_adapter_def odd_state_adapter_def unmapped_mode_adapter_def
  unmapped_action_adapter_def no_action_adapter_def init_def

text \<open>The table lookups, entry by entry.\<close>

lemma HM_TO_HA_HVAC_MODE_simps:
  "HM_TO_HA_HVAC_MODE HmHvacMode_AUTO = Some HVACMode_AUTO"
  "HM_TO_HA_HVAC_MODE HmHvacMode_COOL = Some HVACMode_COOL"
  "HM_TO_HA_HVAC_MODE HmHvacMode_HEAT = Some HVACMode_HEAT"
  "HM_TO_HA_HVAC_MODE HmHvacMode_OFF = Some HVACMode_OFF"
  "HM_TO_HA_HVAC_MODE (HmHvacMode_OTHER n) = None"
  by (simp_all add: HM_TO_HA_HVAC_MODE_def HM_TO_HA_HVAC_MODE_items_def dict_of_def)

lemma HA_TO_HM_HVAC_MODE_simps:
  "HA_TO_HM_HVAC_MODE HVACMode_AUTO = Some HmHvacMode_AUTO"
  "HA_TO_HM_HVAC_MODE HVACMode_COOL = Some HmHvacMode_COOL"
  "HA_TO_HM_HVAC_MODE HVACMode_HEAT = Some HmHvacMode_HEAT"
  "HA_TO_HM_HVAC_MODE HVACMode_OFF = Some HmHvacMode_OFF"
  "HA_TO_HM_HVAC_MODE HVACMode_HEAT_COOL = None"
  "HA_TO_HM_HVAC_MODE HVACMode_DRY = None"
  "HA_TO_HM_HVAC_MODE HVACMode_FAN_ONLY = None"
  by (simp_all add: HA_TO_HM_HVAC_MODE_def HM_TO_HA_HVAC_MODE_items_def dict_of_def)

lemma HM_TO_HA_ACTION_simps:
  "HM_TO_HA_ACTION HmHvacAction_COOL = Some HVACAction_COOLING"
  "HM_TO_HA_ACTION HmHvacAction_HEAT = Some HVACAction_HEATING"
  "HM_TO_HA_ACTION HmHvacAction_IDLE = Some HVACAction_IDLE"
  "HM_TO_HA_ACTION HmHvacAction_OFF = Some HVACAction_OFF"
  "HM_TO_HA_ACTION (HmHvacAction_OTHER n) = None"
  by (simp_all add: HM_TO_HA_ACTION_def dict_of_def)

text \<open>The calls and the warnings of two runs of events, one after the other.\<close>

lemma hm_calls_append: "hm_calls (xs @ ys) = hm_calls xs @ hm_calls ys"
  by (induction xs rule: hm_calls.induct) simp_all

lemma warnings_append: "warnings (xs @ ys) = warnings xs @ warnings ys"
  by (induction xs rule: warnings.induct) simp_all

text \<open>
  The loop of \<open>preset_modes\<close> adds to the list built so far exactly the presets that pass
  one of its two tests.
\<close>

lemma set_preset_modes_loop:
  "set (preset_modes_loop PFX pms out) =
     set out \<union> {pm \<in> set pms. pm \<in> set SUPPORTED_HA_PRESET_MODES \<or> startswith pm PFX}"
proof (induction pms arbitrary: out)
  case Nil
  show ?case by simp
next
  case (Cons pm pms)
  show ?case by (auto simp: Cons.IH Let_def)
qed

lemma set_preset_modes:
  "set (preset_modes PFX self) =
     {pm \<in> set (hm_preset_modes (hm_entity self)).
        pm \<in> set SUPPORTED_HA_PRESET_MODES \<or> startswith pm PFX}"
  by (simp add: preset_modes_def set_preset_modes_loop)

text \<open>Changes of the handle reach the field \<open>hm_entity\<close>, and nothing else of the adapter.\<close>

lemma hm_entity_handle_changes:
  "hm_entity (handle_changes fs self) = fold (\<lambda>f. f) fs (hm_entity self)"
  by (induction fs arbitrary: self) (simp_all add: handle_changed_def)

lemma attr_step_handle_changes:
  "attr_target_temperature_step (handle_changes fs self) = attr_target_temperature_step self"
  by (induction fs arbitrary: self) (simp_all add: handle_changed_def)

lemma restored_state_handle_changes:
  "restored_state (handle_changes fs self) = restored_state self"
  by (induction fs arbitrary: self) (simp_all add: handle_changed_def)

subsection \<open>The restore fallback of the getters\<close>

text \<open>
  With an invalid handle and a restored snapshot in a known state, target temperature,
  current temperature and current humidity return the snapshot's attribute. So does the
  preset mode, unless the preset the handle reports starts with the profile prefix: that
  preset is returned whether the handle is valid or not.
\<close>

lemma restore_fallback:
  assumes "\<not> hm_is_valid (hm_entity self)"
    and "restored_state self = Some rs"
    and "state rs \<noteq> STATE_UNKNOWN" and "state rs \<noteq> STATE_UNAVAILABLE"
  shows "target_temperature self = dict_get (attributes rs) ATTR_TEMPERATURE"
    and "current_temperature self = dict_get (attributes rs) ATTR_CURRENT_TEMPERATURE"
    and "current_humidity self = dict_get (attributes rs) ATTR_CURRENT_HUMIDITY"
    and "\<not> startswith (hm_preset_mode (hm_entity self)) PFX
           \<Longrightarrow> preset_mode PFX self = dict_get (attributes rs) ATTR_PRESET_MODE"
    and "startswith (hm_preset_mode (hm_entity self)) PFX
           \<Longrightarrow> preset_mode PFX self = PStr (hm_preset_mode (hm_entity self))"
  using assms
  by (simp_all add: target_temperature_def current_temperature_def current_humidity_def
      preset_mode_def is_restored_def)

lemma no_snapshot_fallback:
  assumes "\<not> hm_is_valid (hm_entity self)" and "restored_state self = None"
  shows "target_temperature self = PNone"
    and "current_temperature self = PNone"
    and "current_humidity self = PNone"
    and "hvac_mode self = Inr None"
    and "\<not> startswith (hm_preset_mode (hm_entity self)) PFX
           \<Longrightarrow> preset_mode PFX self = PNone"
  using assms
  by (simp_all add: target_temperature_def current_temperature_def current_humidity_def
      preset_mode_def is_restored_def hvac_mode_def)

text \<open>
  C1. The claim: with an invalid handle and a restored snapshot in a known state, the
  getters of target temperature, current temperature, current humidity and preset mode
  each return the snapshot's attribute. The preset-mode getter does not: for the handle of
  \<open>stale_profile_adapter\<close>, which is invalid and reports the preset
  \<^verbatim>\<open>week_program_1\<close>, and a snapshot in state \<^verbatim>\<open>heat\<close> whose preset attribute is
  \<^verbatim>\<open>boost\<close>, it returns the handle's \<^verbatim>\<open>week_program_1\<close>.
\<close>

theorem preset_mode_stale_profile:
  "\<not> hm_is_valid (hm_entity stale_profile_adapter)
   \<and> restored_state stale_profile_adapter = Some snapshot
   \<and> is_restored stale_profile_adapter
   \<and> dict_get (attributes snapshot) ATTR_PRESET_MODE = PStr ''boost''
   \<and> preset_mode ''week_program_'' stale_profile_adapter = PStr ''week_program_1''"
  by (simp add: example_defs const_defs is_restored_def dict_get_def preset_mode_def)

subsection \<open>The mode tables\<close>

text \<open>
  C2. Every device-library HVAC mode with an entry in \<open>HM_TO_HA_HVAC_MODE\<close> is mapped
  back to itself by \<open>HA_TO_HM_HVAC_MODE\<close>: translating to the platform mode and back
  yields the original mode.
\<close>

theorem hvac_mode_round_trip:
  "HM_TO_HA_HVAC_MODE hm = Some ha \<Longrightarrow> HA_TO_HM_HVAC_MODE ha = Some hm"
  by (cases hm) (auto simp: HM_TO_HA_HVAC_MODE_simps HA_TO_HM_HVAC_MODE_simps)

theorem hvac_mode_round_trip_witness:
  "HM_TO_HA_HVAC_MODE HmHvacMode_HEAT = Some HVACMode_HEAT
   \<and> HA_TO_HM_HVAC_MODE HVACMode_HEAT = Some HmHvacMode_HEAT"
  using hvac_mode_round_trip [of HmHvacMode_HEAT HVACMode_HEAT]
  by (simp add: HM_TO_HA_HVAC_MODE_simps)

subsection \<open>Setting the HVAC mode\<close>

text \<open>
  C3. For a requested platform mode without an entry in \<open>HA_TO_HM_HVAC_MODE\<close>,
  \<open>async_set_hvac_mode\<close> logs a warning and makes no call on the handle; for a mode with
  an entry it makes one call, \<open>set_hvac_mode\<close> with the mapped device-library mode, and
  logs nothing.
\<close>

theorem async_set_hvac_mode_effect:
  "(HA_TO_HM_HVAC_MODE m = None \<longrightarrow>
      async_set_hvac_mode self m tr =
        tr @ [Warning ''Hvac mode %s is not supported by integration'' [Arg_mode (Some m)]]
      \<and> hm_calls (async_set_hvac_mode self m tr) = hm_calls tr)
   \<and> (\<forall>hm. HA_TO_HM_HVAC_MODE m = Some hm \<longrightarrow>
         async_set_hvac_mode self m tr = tr @ [HmCall (set_hvac_mode hm)]
         \<and> hm_calls (async_set_hvac_mode self m tr) = hm_calls tr @ [set_hvac_mode hm]
         \<and> warnings (async_set_hvac_mode self m tr) = warnings tr)"
proof (cases "HA_TO_HM_HVAC_MODE m")
  case None
  then show ?thesis
    by (simp add: async_set_hvac_mode_def hm_calls_append)
next
  case (Some hm)
  then show ?thesis
    by (simp add: async_set_hvac_mode_def hm_calls_append warnings_append)
qed

theorem async_set_hvac_mode_effect_witness:
  "HA_TO_HM_HVAC_MODE HVACMode_DRY = None
   \<and> hm_calls (async_set_hvac_mode (init 0 thermostat) HVACMode_DRY []) = []
   \<and> HA_TO_HM_HVAC_MODE HVACMode_COOL = Some HmHvacMode_COOL
   \<and> hm_calls (async_set_hvac_mode (init 0 thermostat) HVACMode_COOL [])
       = [set_hvac_mode HmHvacMode_COOL]"
  using async_set_hvac_mode_effect [of HVACMode_DRY "init 0 thermostat" "[]"]
    async_set_hvac_mode_effect [of HVACMode_COOL "init 0 thermostat" "[]"]
  by (simp add: HA_TO_HM_HVAC_MODE_simps)

subsection \<open>Preset modes\<close>

text \<open>
  When does the getter \<open>hvac_mode\<close> return: whenever the handle is valid, no snapshot is
  restored, or the snapshot's state is unknown, unavailable or a value of the platform's
  enum.
\<close>

lemma hvac_mode_returns:
  "hm_is_valid (hm_entity self) \<or> restored_state self = None
     \<or> (\<exists>rs m. restored_state self = Some rs \<and> HVACMode_of_value (state rs) = Inr m)
     \<or> (\<exists>rs. restored_state self = Some rs \<and> state rs \<in> {STATE_UNKNOWN, STATE_UNAVAILABLE})
   \<Longrightarrow> \<exists>m. hvac_mode self = Inr m"
  by (auto simp: hvac_mode_def is_restored_def split: option.splits sum.splits)

text \<open>
  What \<open>async_set_preset_mode\<close> does, case by case. For a preset outside the filtered
  list it never calls the handle; it logs the warning and returns when the getter
  \<open>hvac_mode\<close> returns, and ends with the getter's exception otherwise. A preset of the
  list is forwarded in one call of \<open>set_preset_mode\<close> when it is the value of a member of
  the library's enum, as every preset of a handle of the library is.
\<close>

lemma async_set_preset_mode_effect:
  "(pm \<notin> set (preset_modes PFX self) \<longrightarrow>
      hm_calls (fst (async_set_preset_mode vals PFX self pm tr)) = hm_calls tr
      \<and> (\<forall>m. hvac_mode self = Inr m \<longrightarrow>
           async_set_preset_mode vals PFX self pm tr =
             (tr @ [Warning ''Preset mode %s is not supported in hvac_mode %s''
                      [Arg_str pm, Arg_mode m]],
              None))
      \<and> (\<forall>e. hvac_mode self = Inl e \<longrightarrow>
           async_set_preset_mode vals PFX self pm tr = (tr, Some e)))
   \<and> (pm \<in> set (preset_modes PFX self) \<longrightarrow>
        (pm \<in> set vals \<longrightarrow>
           async_set_preset_mode vals PFX self pm tr
             = (tr @ [HmCall (set_preset_mode pm)], None))
        \<and> (pm \<notin> set vals \<longrightarrow>
             async_set_preset_mode vals PFX self pm tr = (tr, Some ValueError)))"
proof (intro conjI impI allI)
  assume out: "pm \<notin> set (preset_modes PFX self)"
  show "hm_calls (fst (async_set_preset_mode vals PFX self pm tr)) = hm_calls tr"
  proof (cases "hvac_mode self")
    case (Inl e)
    with out show ?thesis by (simp add: async_set_preset_mode_def)
  next
    case (Inr m)
    with out show ?thesis by (simp add: async_set_preset_mode_def hm_calls_append)
  qed
next
  fix m
  assume "pm \<notin> set (preset_modes PFX self)" and "hvac_mode self = Inr m"
  then show "async_set_preset_mode vals PFX self pm tr =
      (tr @ [Warning ''Preset mode %s is not supported in hvac_mode %s''
               [Arg_str pm, Arg_mode m]],
       None)"
    by (simp add: async_set_preset_mode_def)
next
  fix e
  assume "pm \<notin> set (preset_modes PFX self)" and "hvac_mode self = Inl e"
  then show "async_set_preset_mode vals PFX self pm tr = (tr, Some e)"
    by (simp add: async_set_preset_mode_def)
next
  assume "pm \<in> set (preset_modes PFX self)" and "pm \<in> set vals"
  then show "async_set_preset_mode vals PFX self pm tr
      = (tr @ [HmCall (set_preset_mode pm)], None)"
    by (simp add: async_set_preset_mode_def PresetMode_of_value_def)
next
  assume "pm \<in> set (preset_modes PFX self)" and "pm \<notin> set vals"
  then show "async_set_preset_mode vals PFX self pm tr = (tr, Some ValueError)"
    by (simp add: async_set_preset_mode_def PresetMode_of_value_def)
qed

text \<open>
  On the thermostat: \<^verbatim>\<open>party\<close> is reported by the handle but filtered out, so the
  request is declined with a warning; \<^verbatim>\<open>boost\<close> is forwarded.
\<close>

lemma async_set_preset_mode_example:
  "async_set_preset_mode (hm_preset_modes thermostat) ''week_program_'' (init 0 thermostat)
     ''party'' [] =
       ([Warning ''Preset mode %s is not supported in hvac_mode %s''
           [Arg_str ''party'', Arg_mode (Some HVACMode_HEAT)]],
        None)
   \<and> async_set_preset_mode (hm_preset_modes thermostat) ''week_program_'' (init 0 thermostat)
       ''boost'' [] =
       ([HmCall (set_preset_mode ''boost'')], None)"
proof -
  have v: "hvac_mode (init 0 thermostat) = Inr (Some HVACMode_HEAT)"
    by (simp add: hvac_mode_def example_defs HM_TO_HA_HVAC_MODE_simps)
  have out: "''party'' \<notin> set (preset_modes ''week_program_'' (init 0 thermostat))"
    by (simp add: set_preset_modes example_defs const_defs)
  have inn: "''boost'' \<in> set (preset_modes ''week_program_'' (init 0 thermostat))"
    by (simp add: set_preset_modes example_defs const_defs)
  have mem: "''boost'' \<in> set (hm_preset_modes thermostat)"
    by (simp add: thermostat_def)
  from async_set_preset_mode_effect
         [of "''party''" "''week_program_''" "init 0 thermostat" "hm_preset_modes thermostat"
             "[]"] out v
  have a: "async_set_preset_mode (hm_preset_modes thermostat) ''week_program_''
      (init 0 thermostat) ''party'' [] =
       ([Warning ''Preset mode %s is not supported in hvac_mode %s''
           [Arg_str ''party'', Arg_mode (Some HVACMode_HEAT)]],
        None)"
    by simp
  from async_set_preset_mode_effect
         [of "''boost''" "''week_program_''" "init 0 thermostat" "hm_preset_modes thermostat"
             "[]"] inn mem
  have b: "async_set_preset_mode (hm_preset_modes thermostat) ''week_program_''
      (init 0 thermostat) ''boost'' [] =
       ([HmCall (set_preset_mode ''boost'')], None)"
    by simp
  from a b show ?thesis by simp
qed


subsection \<open>HVAC mode and HVAC action\<close>

text \<open>
  C5. With a valid handle whose current HVAC mode has no entry in
  \<open>HM_TO_HA_HVAC_MODE\<close>, the getter \<open>hvac_mode\<close> returns the platform mode OFF.
\<close>

theorem hvac_mode_fails_closed:
  "hm_is_valid (hm_entity self)
   \<Longrightarrow> HM_TO_HA_HVAC_MODE (hm_hvac_mode (hm_entity self)) = None
   \<Longrightarrow> hvac_mode self = Inr (Some HVACMode_OFF)"
  by (simp add: hvac_mode_def)

theorem hvac_mode_fails_closed_witness:
  "hm_is_valid (hm_entity unmapped_mode_adapter)
   \<and> HM_TO_HA_HVAC_MODE (hm_hvac_mode (hm_entity unmapped_mode_adapter)) = None
   \<and> hvac_mode unmapped_mode_adapter = Inr (Some HVACMode_OFF)"
proof -
  have v: "hm_is_valid (hm_entity unmapped_mode_adapter)"
    by (simp add: example_defs)
  have u: "HM_TO_HA_HVAC_MODE (hm_hvac_mode (hm_entity unmapped_mode_adapter)) = None"
    by (simp add: example_defs HM_TO_HA_HVAC_MODE_simps)
  from v u hvac_mode_fails_closed [OF v u] show ?thesis by simp
qed

text \<open>
  C6, as the claim states it, fails: the getter does not return \<^verbatim>\<open>None\<close> whenever the
  handle reports an invalid state. The handle of \<open>restored_adapter\<close> is invalid and
  reports the action HEAT; the getter never tests \<open>is_valid\<close> and returns HEATING.
\<close>

theorem hvac_action_of_invalid_handle:
  "\<not> hm_is_valid (hm_entity restored_adapter)
   \<and> hm_hvac_action (hm_entity restored_adapter) = Some HmHvacAction_HEAT
   \<and> hvac_action restored_adapter = Some HVACAction_HEATING
   \<and> hvac_action restored_adapter \<noteq> None"
  by (simp add: example_defs hvac_action_def HM_TO_HA_ACTION_simps)

text \<open>
  C6, amended. The getter \<open>hvac_action\<close> consults neither the restored snapshot nor the
  handle's validity. For every adapter, whether its handle is valid or not, it returns the
  platform action mapped from the handle's action when that action is set and has an entry
  in \<open>HM_TO_HA_ACTION\<close>, and \<^verbatim>\<open>None\<close> in every other case: when the action is set
  without an entry, and when it is not set.
\<close>

theorem hvac_action_live_only:
  "hvac_action (self\<lparr>restored_state := rs\<rparr>) = hvac_action self
   \<and> hvac_action (self\<lparr>hm_entity := (hm_entity self)\<lparr>hm_is_valid := v\<rparr>\<rparr>) = hvac_action self
   \<and> (\<forall>a ha. hm_hvac_action (hm_entity self) = Some a \<and> HM_TO_HA_ACTION a = Some ha
         \<longrightarrow> hvac_action self = Some ha)
   \<and> (\<forall>a. hm_hvac_action (hm_entity self) = Some a \<and> HM_TO_HA_ACTION a = None
         \<longrightarrow> hvac_action self = None)
   \<and> (hm_hvac_action (hm_entity self) = None \<longrightarrow> hvac_action self = None)"
proof -
  have "hvac_action (self\<lparr>restored_state := rs\<rparr>) = hvac_action self"
    by (simp add: hvac_action_def)
  moreover
  have "hvac_action (self\<lparr>hm_entity := (hm_entity self)\<lparr>hm_is_valid := v\<rparr>\<rparr>)
      = hvac_action self"
    by (simp add: hvac_action_def)
  moreover
  have "hvac_action self = Some ha"
    if "hm_hvac_action (hm_entity self) = Some a" and "HM_TO_HA_ACTION a = Some ha" for a ha
    using that by (simp add: hvac_action_def)
  moreover
  have "hvac_action self = None"
    if "hm_hvac_action (hm_entity self) = Some a" and "HM_TO_HA_ACTION a = None" for a
    using that by (simp add: hvac_action_def)
  moreover
  have "hvac_action self = None" if "hm_hvac_action (hm_entity self) = None"
    using that by (simp add: hvac_action_def)
  ultimately show ?thesis by blast
qed

theorem hvac_action_live_only_witness:
  "hm_hvac_action (hm_entity restored_adapter) = Some HmHvacAction_HEAT
   \<and> HM_TO_HA_ACTION HmHvacAction_HEAT = Some HVACAction_HEATING
   \<and> hvac_action restored_adapter = Some HVACAction_HEATING
   \<and> hm_hvac_action (hm_entity unmapped_action_adapter) = Some (HmHvacAction_OTHER 0)
   \<and> HM_TO_HA_ACTION (HmHvacAction_OTHER 0) = None
   \<and> hvac_action unmapped_action_adapter = None
   \<and> hm_hvac_action (hm_entity no_action_adapter) = None
   \<and> hvac_action no_action_adapter = None"
proof -
  have a: "hm_hvac_action (hm_entity restored_adapter) = Some HmHvacAction_HEAT"
    by (simp add: example_defs)
  have b: "hm_hvac_action (hm_entity unmapped_action_adapter) = Some (HmHvacAction_OTHER 0)"
    by (simp add: example_defs)
  have c: "hm_hvac_action (hm_entity no_action_adapter) = None"
    by (simp add: example_defs)
  note m = HM_TO_HA_ACTION_simps
  from hvac_action_live_only [where self = restored_adapter] a m
  have "hvac_action restored_adapter = Some HVACAction_HEATING" by simp
  moreover from hvac_action_live_only [where self = unmapped_action_adapter] b m
  have "hvac_action unmapped_action_adapter = None" by simp
  moreover from hvac_action_live_only [where self = no_action_adapter] c
  have "hvac_action no_action_adapter = None" by simp
  ultimately show ?thesis using a b c m by simp
qed

subsection \<open>Away mode and target temperature\<close>

text \<open>
  C7. Called without a start time, \<open>async_enable_away_mode_by_calendar\<close> makes one call
  of the handle's \<open>enable_away_mode_by_calendar\<close>, with the start ten minutes (in
  microseconds) before now, the given end and the given away temperature; called with a
  start time it makes the one call with that start unchanged.
\<close>

theorem away_mode_by_calendar_start:
  "async_enable_away_mode_by_calendar now self away_end away_temperature None tr
     = tr @ [HmCall (enable_away_mode_by_calendar (now - 10 * 60 * 1000000) away_end
                       away_temperature)]
   \<and> async_enable_away_mode_by_calendar now self away_end away_temperature (Some start) tr
     = tr @ [HmCall (enable_away_mode_by_calendar start away_end away_temperature)]
   \<and> hm_calls (async_enable_away_mode_by_calendar now self away_end away_temperature None tr)
     = hm_calls tr
         @ [enable_away_mode_by_calendar (now - 10 * 60 * 1000000) away_end away_temperature]
   \<and> hm_calls
       (async_enable_away_mode_by_calendar now self away_end away_temperature (Some start) tr)
     = hm_calls tr @ [enable_away_mode_by_calendar start away_end away_temperature]"
  by (simp add: async_enable_away_mode_by_calendar_def timedelta_minutes_def hm_calls_append)

text \<open>
  C8. Without a temperature among its arguments (no such key, or \<^verbatim>\<open>None\<close> under it)
  \<open>async_set_temperature\<close> returns with no event at all; with a temperature it makes one
  call of the handle's \<open>set_temperature\<close> with that value.
\<close>

theorem async_set_temperature_effect:
  "(kwargs ATTR_TEMPERATURE = None \<or> kwargs ATTR_TEMPERATURE = Some PNone
      \<longrightarrow> async_set_temperature self kwargs tr = tr)
   \<and> (\<forall>t. kwargs ATTR_TEMPERATURE = Some t \<and> t \<noteq> PNone
         \<longrightarrow> async_set_temperature self kwargs tr = tr @ [HmCall (set_temperature t)]
           \<and> hm_calls (async_set_temperature self kwargs tr)
               = hm_calls tr @ [set_temperature t])"
proof (cases "kwargs ATTR_TEMPERATURE")
  case None
  then show ?thesis by (simp add: async_set_temperature_def dict_get_def)
next
  case (Some t)
  then show ?thesis
    by (cases "t = PNone") (simp_all add: async_set_temperature_def dict_get_def hm_calls_append)
qed

theorem async_set_temperature_effect_witness:
  "Map.empty ATTR_TEMPERATURE = None
   \<and> async_set_temperature (init 0 thermostat) Map.empty [] = []
   \<and> [ATTR_TEMPERATURE \<mapsto> PFloat 21] ATTR_TEMPERATURE = Some (PFloat 21)
   \<and> PFloat 21 \<noteq> PNone
   \<and> async_set_temperature (init 0 thermostat) [ATTR_TEMPERATURE \<mapsto> PFloat 21] []
       = [HmCall (set_temperature (PFloat 21))]"
  using async_set_temperature_effect [of Map.empty "init 0 thermostat" "[]"]
    async_set_temperature_effect
      [of "[ATTR_TEMPERATURE \<mapsto> PFloat 21]" "init 0 thermostat" "[]"]
  by simp

subsection \<open>Temperature limits, step and features\<close>

text \<open>
  C9, as the claim states it, fails for the step: the adapter built for the thermostat
  (step 1) still returns 1 after the handle changed its step to 2.
\<close>

theorem step_is_cached:
  "target_temperature_step
     (handle_changes [change_target_temperature_step 2] (init 0 thermostat)) = 1
   \<and> hm_target_temperature_step
       (hm_entity (handle_changes [change_target_temperature_step 2] (init 0 thermostat))) = 2"
  by (simp add: target_temperature_step_def handle_changed_def
      change_target_temperature_step_def init_def thermostat_def)

text \<open>
  C9, amended. Minimum and maximum temperature are read live, with no restore fallback and
  no cached value: for every adapter, whatever its snapshot and whether its handle is valid
  or not, and after every sequence of changes of the handle, they are the handle's current
  values. The target-temperature step is cached: changes of the handle and the restored
  snapshot leave it, and for an adapter that was constructed, had its handle change,
  its snapshot restored and its handle change again, it is the step the handle reported
  at construction.
\<close>

theorem temperature_limits_live_step_from_init:
  "hm_entity (handle_changes fs self) = fold (\<lambda>f. f) fs (hm_entity self)
   \<and> min_temp (handle_changes fs self) = hm_min_temp (fold (\<lambda>f. f) fs (hm_entity self))
   \<and> max_temp (handle_changes fs self) = hm_max_temp (fold (\<lambda>f. f) fs (hm_entity self))
   \<and> min_temp (self\<lparr>restored_state := rs\<rparr>) = hm_min_temp (hm_entity self)
   \<and> max_temp (self\<lparr>restored_state := rs\<rparr>) = hm_max_temp (hm_entity self)
   \<and> target_temperature_step (handle_changes fs self) = target_temperature_step self
   \<and> target_temperature_step (self\<lparr>restored_state := rs\<rparr>) = target_temperature_step self
   \<and> hm_entity (handle_changes fs (init c hm)) = fold (\<lambda>f. f) fs hm
   \<and> min_temp (handle_changes fs (init c hm)) = hm_min_temp (fold (\<lambda>f. f) fs hm)
   \<and> max_temp (handle_changes fs (init c hm)) = hm_max_temp (fold (\<lambda>f. f) fs hm)
   \<and> target_temperature_step (handle_changes fs (init c hm)) = hm_target_temperature_step hm
   \<and> restored_state (handle_changes fs2 ((handle_changes fs1 (init c hm))\<lparr>restored_state := rs\<rparr>))
       = rs
   \<and> min_temp (handle_changes fs2 ((handle_changes fs1 (init c hm))\<lparr>restored_state := rs\<rparr>))
       = hm_min_temp (fold (\<lambda>f. f) (fs1 @ fs2) hm)
   \<and> max_temp (handle_changes fs2 ((handle_changes fs1 (init c hm))\<lparr>restored_state := rs\<rparr>))
       = hm_max_temp (fold (\<lambda>f. f) (fs1 @ fs2) hm)
   \<and> target_temperature_step
         (handle_changes fs2 ((handle_changes fs1 (init c hm))\<lparr>restored_state := rs\<rparr>))
       = hm_target_temperature_step hm"
proof -
  let ?a = "handle_changes fs2 ((handle_changes fs1 (init c hm))\<lparr>restored_state := rs\<rparr>)"
  have live: "min_temp a = hm_min_temp (hm_entity a) \<and> max_temp a = hm_max_temp (hm_entity a)
      \<and> target_temperature_step a = attr_target_temperature_step a" for a
    by (simp add: min_temp_def max_temp_def target_temperature_step_def)
  have h0: "hm_entity (init c hm) = hm"
    and s0: "attr_target_temperature_step (init c hm) = hm_target_temperature_step hm"
    by (simp_all add: init_def)
  have h: "hm_entity ?a = fold (\<lambda>f. f) (fs1 @ fs2) hm"
    by (simp add: hm_entity_handle_changes h0)
  have s: "attr_target_temperature_step ?a = hm_target_temperature_step hm"
    by (simp add: attr_step_handle_changes s0)
  have r: "restored_state ?a = rs"
    by (simp add: restored_state_handle_changes)
  show ?thesis
    using h s r
    by (simp add: live hm_entity_handle_changes attr_step_handle_changes h0 s0)
qed

text \<open>
  On the restored adapter, whose handle is invalid and whose snapshot is in a known state,
  the limits are still the handle's.
\<close>

lemma temperature_limits_of_restored_adapter:
  "\<not> hm_is_valid (hm_entity restored_adapter)
   \<and> is_restored restored_adapter
   \<and> min_temp restored_adapter = 5 \<and> max_temp restored_adapter = 30"
  by (simp add: example_defs const_defs is_restored_def min_temp_def max_temp_def)

text \<open>
  C10. Whatever the handle reports, \<open>supported_features\<close> contains TARGET_TEMPERATURE,
  TURN_OFF and TURN_ON, and it contains PRESET_MODE exactly when the handle reports
  \<open>supports_preset\<close>.
\<close>

theorem supported_features_flags:
  "TARGET_TEMPERATURE \<in> supported_features self
   \<and> TURN_OFF \<in> supported_features self
   \<and> TURN_ON \<in> supported_features self
   \<and> (PRESET_MODE \<in> supported_features self) = hm_supports_preset (hm_entity self)"
  by (cases "hm_supports_preset (hm_entity self)") (simp_all add: supported_features_def)

end
